theory Spec2Isabelle
  imports Main "HOL-Library.Sublist"
begin

section \<open>Values and protocol frames\<close>

text \<open>
  The two processes exchange JSON-like JavaScript values. \<open>JNative n\<close> stands for a
  built-in object or function of the runtime (a member of \<open>Object.prototype\<close>, named
  \<open>n\<close>); numbers are the integer-valued ones.
\<close>

datatype jsval =
    JUndefined
  | JNull
  | JBool bool
  | JNum int
  | JStr string
  | JArr "jsval list"
  | JObj "(string \<times> jsval) list"
  | JNative string

text \<open>JavaScript truthiness, as tested by \<open>if (resp)\<close>, \<open>id ? \<dots> : null\<close> and \<open>&&\<close>.\<close>

fun truthy :: "jsval \<Rightarrow> bool" where
  "truthy JUndefined = False"
| "truthy JNull = False"
| "truthy (JBool b) = b"
| "truthy (JNum n) = (n \<noteq> 0)"
| "truthy (JStr s) = (s \<noteq> [])"
| "truthy (JArr xs) = True"
| "truthy (JObj ps) = True"
| "truthy (JNative n) = True"

datatype error =
    TypeError_busy_or_not_ready
  | TypeError_event_is_not_pong
  | TypeError_params_is_invalid
  | TypeError_cannot_read_property
  | TypeError_path_not_a_string
  | Raised jsval
  | Remove_failed

text \<open>
  Modelled from the spec: the types of the module \<open>./proto\<close>, which is not among the
  sources. Section 3 of the specification gives the operators and the frame
  \<open>{ operator, message: { event, params } }\<close>; the two files use the fields \<open>op\<close>
  and \<open>message\<close>. \<open>params\<close> is optional in a message: \<open>destroy()\<close> sends
  \<open>{ event: 'destroy' }\<close>.
\<close>

datatype PluginOperator = START | WRITE | READ | COMPILE

record PluginMessage =
  event :: string
  params :: "jsval list option"

record PluginProto =
  op :: PluginOperator
  message :: PluginMessage

text \<open>What crosses the channel between the two processes: an encoded frame.\<close>

datatype wire = Wire PluginOperator PluginMessage

text \<open>
  Modelled from the spec: \<open>PluginProto.stringify\<close> of the module \<open>./proto\<close>, which is
  not among the sources. Section 4.1 of the specification requires the codec to be
  symmetric, \<open>decode (encode (op, msg)) = (op, msg)\<close>, so the encoded frame is kept as
  the pair it encodes.
\<close>

definition stringify :: "PluginOperator \<Rightarrow> PluginMessage \<Rightarrow> wire" where
  "stringify oper msg = Wire oper msg"

text \<open>
  Modelled from the spec: \<open>PluginProto.parse\<close> of the module \<open>./proto\<close>, the inverse of
  \<open>stringify\<close> (section 4.1).
\<close>

fun parse :: "wire \<Rightarrow> PluginProto" where
  "parse (Wire oper msg) = \<lparr>op = oper, message = msg\<rparr>"

text \<open>JavaScript's \<open>xs[0]\<close> on an array: \<open>undefined\<close> when the array is empty.\<close>

fun first_elem :: "jsval list \<Rightarrow> jsval" where
  "first_elem [] = JUndefined"
| "first_elem (x # xs) = x"

section \<open>The process endpoint (client side)\<close>

text \<open>
  What the endpoint takes from outside itself: \<open>uuid.v4()\<close>, as the sequence of ids it
  returns, and the plugin loader. \<open>require_plugin pkg\<close> covers lines 44 to 52 of the
  \<open>WRITE\<close> handler (loading \<open>@pipcook/boa\<close>, \<open>require(pkg.name)\<close>, the default
  export): it raises, or yields the plugin function, which for the resolved arguments
  raises (or rejects) or returns a value.
\<close>

record platform =
  uuid_v4 :: "nat \<Rightarrow> string"
  require_plugin :: "jsval \<Rightarrow> error + (jsval list \<Rightarrow> error + jsval)"

text \<open>
  The module-level state \<open>clientId\<close> and \<open>previousResults\<close>, with what the process
  does to the outside: frames passed to \<open>process.send\<close>, errors printed by
  \<open>console.error\<close>, errors that escape a handler, and the exit code once the process
  has ended. \<open>uuids\<close> counts the calls of \<open>uuid.v4()\<close> so far.
\<close>

record client =
  clientId :: "string option"
  previousResults :: "(string \<times> jsval) list"
  uuids :: nat
  sent :: "wire list"
  logged :: "error list"
  uncaught :: "error list"
  exit_code :: "nat option"

definition client_init :: client where
  "client_init = \<lparr>clientId = None, previousResults = [], uuids = 0, sent = [],
     logged = [], uncaught = [], exit_code = None\<rparr>"

text \<open>
  \<^verbatim>\<open>function recv(respOp, ...params: string[]) {
    process.send(PluginProto.stringify(respOp, { event: 'pong', params })); }\<close>
\<close>

definition recv :: "PluginOperator \<Rightarrow> string list \<Rightarrow> client \<Rightarrow> client" where
  "recv respOp ps c =
     c\<lparr>sent := sent c @ [stringify respOp \<lparr>event = ''pong'', params = Some (map JStr ps)\<rparr>]\<rparr>"

definition flag :: string where
  "flag = ''__pipcook_plugin_runnable_result__''"

text \<open>
  Property lookup on a plain object (\<open>{}\<close> or one parsed from a frame): the own
  property, else the member inherited from \<open>Object.prototype\<close>, else \<open>undefined\<close>.
\<close>

definition Object_prototype :: "string list" where
  "Object_prototype = [''constructor'', ''__defineGetter__'', ''__defineSetter__'',
     ''hasOwnProperty'', ''__lookupGetter__'', ''__lookupSetter__'', ''isPrototypeOf'',
     ''propertyIsEnumerable'', ''toString'', ''valueOf'', ''__proto__'', ''toLocaleString'']"

definition get_property :: "(string \<times> jsval) list \<Rightarrow> string \<Rightarrow> jsval" where
  "get_property ps k =
     (case map_of ps k of
        Some v \<Rightarrow> v
      | None \<Rightarrow> if k \<in> set Object_prototype then JNative k else JUndefined)"

text \<open>Decimal digits of a number, for its use as a property key.\<close>

fun digits :: "nat \<Rightarrow> string" where
  "digits n = (if n < 10 then [char_of (48 + n)] else digits (n div 10) @ [char_of (48 + n mod 10)])"

declare digits.simps [simp del]

fun join_comma :: "string list \<Rightarrow> string" where
  "join_comma [] = []"
| "join_comma [s] = s"
| "join_comma (s # t # ss) = s @ '','' @ join_comma (t # ss)"

text \<open>
  \<open>ToString\<close>, as applied to the key in \<open>previousResults[arg.id]\<close>. An array joins its
  elements with commas, \<open>null\<close> and \<open>undefined\<close> elements as empty strings.
\<close>

fun to_string :: "jsval \<Rightarrow> string"
  and element_string :: "jsval \<Rightarrow> string" where
  "to_string JUndefined = ''undefined''"
| "to_string JNull = ''null''"
| "to_string (JBool b) = (if b then ''true'' else ''false'')"
| "to_string (JNum n) = (if n < 0 then ''-'' @ digits (nat (- n)) else digits (nat n))"
| "to_string (JStr s) = s"
| "to_string (JArr xs) = join_comma (map element_string xs)"
| "to_string (JObj ps) = ''[object Object]''"
| "to_string (JNative n) =
     (if n = ''__proto__'' then ''[object Object]''
      else ''function '' @ n @ ''() { [native code] }'')"
| "element_string JUndefined = []"
| "element_string JNull = []"
| "element_string (JBool b) = to_string (JBool b)"
| "element_string (JNum n) = to_string (JNum n)"
| "element_string (JStr s) = s"
| "element_string (JArr xs) = join_comma (map element_string xs)"
| "element_string (JObj ps) = ''[object Object]''"
| "element_string (JNative n) = to_string (JNative n)"

text \<open>
  \<^verbatim>\<open>function deserializeArg(arg: Record<string, any>) {
    if (arg.__flag__ === '__pipcook_plugin_runnable_result__' &&
      previousResults[arg.id]) {
      return previousResults[arg.id];
    }
    return arg;
  }\<close>
  Reading \<open>arg.__flag__\<close> throws a \<open>TypeError\<close> when \<open>arg\<close> is \<open>null\<close> or
  \<open>undefined\<close>; on a string, number, boolean or array it yields \<open>undefined\<close>.
\<close>

fun deserializeArg :: "(string \<times> jsval) list \<Rightarrow> jsval \<Rightarrow> error + jsval" where
  "deserializeArg tbl JUndefined = Inl TypeError_cannot_read_property"
| "deserializeArg tbl JNull = Inl TypeError_cannot_read_property"
| "deserializeArg tbl (JObj ps) =
     (if get_property ps ''__flag__'' = JStr flag \<and>
         truthy (get_property tbl (to_string (get_property ps ''id'')))
      then Inr (get_property tbl (to_string (get_property ps ''id'')))
      else Inr (JObj ps))"
| "deserializeArg tbl arg = Inr arg"

text \<open>\<open>pluginArgs.map(deserializeArg)\<close>: the first argument that throws ends the map.\<close>

fun map_deserializeArg :: "(string \<times> jsval) list \<Rightarrow> jsval list \<Rightarrow> error + jsval list" where
  "map_deserializeArg tbl [] = Inr []"
| "map_deserializeArg tbl (a # as) =
     (case deserializeArg tbl a of
        Inl e \<Rightarrow> Inl e
      | Inr v \<Rightarrow> (case map_deserializeArg tbl as of Inl e \<Rightarrow> Inl e | Inr vs \<Rightarrow> Inr (v # vs)))"

text \<open>
  The body of the \<open>try\<close> block up to the awaited result:
  \<open>await fn(...pluginArgs.map(deserializeArg))\<close> after the plugin was loaded.
\<close>

definition invoke ::
  "platform \<Rightarrow> (string \<times> jsval) list \<Rightarrow> jsval \<Rightarrow> jsval list \<Rightarrow> error + jsval" where
  "invoke P tbl pkg pluginArgs =
     (case require_plugin P pkg of
        Inl e \<Rightarrow> Inl e
      | Inr fn \<Rightarrow>
          (case map_deserializeArg tbl pluginArgs of
             Inl e \<Rightarrow> Inl e
           | Inr as \<Rightarrow> fn as))"

text \<open>
  \<^verbatim>\<open>[PluginOperator.START]: (proto) => {
    if (proto.message.event === 'handshake' &&
      typeof proto.message.params[0] === 'string') {
      clientId = proto.message.params[0];
      recv(PluginOperator.START, clientId);
    } }\<close>
  With the event \<open>handshake\<close> and no \<open>params\<close> the handler throws; the exception is
  uncaught and ends the process with exit code 1.
\<close>

definition handlers_START :: "PluginProto \<Rightarrow> client \<Rightarrow> client" where
  "handlers_START proto c =
     (if event (message proto) = ''handshake'' then
        (case params (message proto) of
           None \<Rightarrow> c\<lparr>uncaught := uncaught c @ [TypeError_cannot_read_property],
                     exit_code := Some 1\<rparr>
         | Some ps \<Rightarrow>
             (case first_elem ps of
                JStr s \<Rightarrow> recv START [s] (c\<lparr>clientId := Some s\<rparr>)
              | _ \<Rightarrow> c))
      else c)"

text \<open>
  The \<open>WRITE\<close> handler (lines 35 to 69). Before the \<open>try\<close> block it reads
  \<open>params[0]\<close>, destructures \<open>params\<close> and reads \<open>pkg.name\<close>: each throws when
  the value is missing, and the rejection of the async handler is handled by nobody.
  Inside the \<open>try\<close> block every error is caught and printed. The handler is taken as
  one step: the plugin's promise settles before the next frame is handled.
\<close>

definition handlers_WRITE :: "platform \<Rightarrow> PluginProto \<Rightarrow> client \<Rightarrow> client" where
  "handlers_WRITE P proto c =
     (if event (message proto) = ''start'' then
        (case params (message proto) of
           None \<Rightarrow> c\<lparr>uncaught := uncaught c @ [TypeError_cannot_read_property]\<rparr>
         | Some ps \<Rightarrow>
             (let pkg = first_elem ps; pluginArgs = tl ps in
              if pkg = JUndefined \<or> pkg = JNull
              then c\<lparr>uncaught := uncaught c @ [TypeError_cannot_read_property]\<rparr>
              else
                (case invoke P (previousResults c) pkg pluginArgs of
                   Inl err \<Rightarrow> c\<lparr>logged := logged c @ [err]\<rparr>
                 | Inr resp \<Rightarrow>
                     if truthy resp then
                       (let rid = uuid_v4 P (uuids c) in
                        recv WRITE [rid]
                          (c\<lparr>uuids := Suc (uuids c),
                             previousResults := (rid, resp) # previousResults c\<rparr>))
                     else recv WRITE [] c)))
      else if event (message proto) = ''destroy'' then c\<lparr>exit_code := Some 0\<rparr>
      else c)"

text \<open>\<^verbatim>\<open>[PluginOperator.READ]: (proto) => { // TODO }\<close>, and the same for \<open>COMPILE\<close>.\<close>

definition handlers_READ :: "PluginProto \<Rightarrow> client \<Rightarrow> client" where
  "handlers_READ proto c = c"

definition handlers_COMPILE :: "PluginProto \<Rightarrow> client \<Rightarrow> client" where
  "handlers_COMPILE proto c = c"

fun handlers :: "platform \<Rightarrow> PluginOperator \<Rightarrow> PluginProto \<Rightarrow> client \<Rightarrow> client" where
  "handlers P START = handlers_START"
| "handlers P WRITE = handlers_WRITE P"
| "handlers P READ = handlers_READ"
| "handlers P COMPILE = handlers_COMPILE"

text \<open>
  \<^verbatim>\<open>process.on('message', (msg) => {
    const proto = PluginProto.parse(msg) as PluginProto;
    handlers[proto.op](proto); });\<close>
  A process that has exited handles nothing.
\<close>

definition on_message :: "platform \<Rightarrow> wire \<Rightarrow> client \<Rightarrow> client" where
  "on_message P msg c =
     (case exit_code c of
        Some n \<Rightarrow> c
      | None \<Rightarrow> (let proto = parse msg in handlers P (op proto) proto c))"

text \<open>The frames of a sequence are handled in the order of their arrival.\<close>

fun on_messages :: "platform \<Rightarrow> wire list \<Rightarrow> client \<Rightarrow> client" where
  "on_messages P [] c = c"
| "on_messages P (m # ms) c = on_messages P ms (on_message P m c)"

section \<open>The runnable (orchestrator side)\<close>

text \<open>
  The methods of \<open>PluginRunnable\<close> are async. Each one that awaits a frame is given in
  two parts: the function named after it runs the method up to the point where it is
  suspended in \<open>read()\<close> (or throws before). \<open>handleMessage\<close> resolves the promise
  of the pending \<open>read()\<close>; the suspended \<open>waitOn\<close> resumes later, in a promise job
  (\<open>waitOn_resumes\<close>), and \<open>resume\<close> runs the rest of the method once \<open>waitOn\<close> has
  returned. \<open>destroy\<close> is suspended until \<open>afterDestroy\<close> resolves its promise. The
  awaits on the file system are taken as immediate.
\<close>

subsection \<open>The file system\<close>

text \<open>
  The paths that exist, as far as the runnable creates and removes them. The operations
  of \<open>fs-extra\<close> are taken to succeed, except \<open>remove\<close> in \<open>afterDestroy\<close>, whose
  failure is an input of that handler. \<open>path.join\<close> is applied to plain segments only.
\<close>

definition path_join :: "string \<Rightarrow> string \<Rightarrow> string" where
  "path_join a b = a @ ''/'' @ b"

definition inside :: "string \<Rightarrow> string \<Rightarrow> bool" where
  "inside dir p = (p = dir \<or> prefix (dir @ ''/'') p)"

definition ensureDir :: "string \<Rightarrow> string list \<Rightarrow> string list" where
  "ensureDir p fs = (if p \<in> set fs then fs else fs @ [p])"

definition ensureSymlink :: "string \<Rightarrow> string \<Rightarrow> string list \<Rightarrow> string list" where
  "ensureSymlink src dst fs = (if dst \<in> set fs then fs else fs @ [dst])"

text \<open>\<open>remove\<close> deletes a directory with everything inside it.\<close>

definition remove :: "string \<Rightarrow> string list \<Rightarrow> string list" where
  "remove p fs = filter (\<lambda>q. \<not> inside p q) fs"

text \<open>
  \<open>path.parse(name).dir\<close>, on POSIX paths: after the root separator, if any, trailing
  separators are ignored, and the directory is the text before the last separator left;
  when none is left it is the root, or empty.
\<close>

definition dir_of :: "string \<Rightarrow> string" where
  "dir_of p =
     (let root = takeWhile (\<lambda>c. c = CHR ''/'') (take 1 p);
          rest = rev (dropWhile (\<lambda>c. c = CHR ''/'') (rev (drop (length root) p)))
      in if CHR ''/'' \<in> set rest
         then root @ rev (tl (dropWhile (\<lambda>c. c \<noteq> CHR ''/'') (rev rest)))
         else root)"

subsection \<open>State\<close>

datatype State = init | idle | busy

text \<open>
  An async method that reaches \<open>await this.read()\<close> is suspended inside \<open>waitOn(op)\<close>,
  called by \<open>sendAndWait\<close>, called by one of three methods. The resolver stored in
  \<open>this.onread\<close> resumes that method: it is identified by the awaited operator and
  the method. A field holding a resolver is unset, or holds the resolver of a pending
  promise, or still holds a resolver whose promise is already resolved (calling it
  again has no effect).
\<close>

datatype caller = by_bootstrap | by_start | by_valueOf

datatype 'a callback = not_set | resolver 'a | resolver_used

record options =
  installDir :: string
  componentDir :: string

text \<open>
  The fields of the class, \<open>id\<close> as \<open>this_id\<close> and \<open>rt.options\<close> as
  \<open>rt_options\<close>. \<open>handle\<close> is \<open>null\<close> or the forked child, given by the frames
  passed to its \<open>send\<close> so far. \<open>children\<close> counts the forked processes whose \<open>disconnect\<close>
  notification has not fired yet (\<open>once('disconnect', \<dots>)\<close>), and \<open>files\<close> is
  the file system.
\<close>

record PluginRunnable =
  this_id :: string
  rt_options :: options
  handle :: "wire list option"
  onread :: "(PluginOperator \<times> caller) callback"
  ondestroyed :: "unit callback"
  workingDir :: string
  state :: State
  children :: nat
  files :: "string list"

text \<open>
  How a call settles. \<open>valueOf\<close> returns \<open>JSON.parse(msg.params[0])\<close>: the parser is
  the platform's, and its application is kept as \<open>Returned_JSON_parse\<close> of the param
  (the parsed value, or the parser's exception).
\<close>

datatype outcome = Rejected error | Returned jsval | Returned_JSON_parse jsval

text \<open>
  What one step did to the calls of the runnable: the call just made threw, or is
  suspended until a frame arrives, or until the child exits; a suspended call skipped
  a frame and reads again, or settled; the promise of \<open>destroy()\<close> resolved; or
  no call was concerned.
\<close>

datatype report =
    Threw error
  | Awaits_frame caller
  | Awaits_exit
  | Skipped caller
  | Settled caller outcome
  | Destroy_resolved
  | No_call

text \<open>\<open>new RunnableResponse(id)\<close>: the field initialiser runs before the constructor body.\<close>

definition RunnableResponse :: "jsval \<Rightarrow> jsval" where
  "RunnableResponse i = JObj [(''__flag__'', JStr flag), (''id'', i)]"

text \<open>
  The constructor; \<open>uuid\<close> is the value of \<open>uuid.v4()\<close> and \<open>fs\<close> the file system
  at that moment.
\<close>

definition new_PluginRunnable :: "options \<Rightarrow> string \<Rightarrow> string list \<Rightarrow> PluginRunnable" where
  "new_PluginRunnable rt uuid fs =
     \<lparr>this_id = uuid, rt_options = rt, handle = None, onread = not_set,
      ondestroyed = not_set, workingDir = path_join (componentDir rt) uuid,
      state = init, children = 0, files = fs\<rparr>"

subsection \<open>Sending and reading\<close>

text \<open>
  \<^verbatim>\<open>private send(op, msg?) {
    const data = PluginProto.stringify(op, msg);
    return this.handle.send(data); }\<close>
  throws when \<open>this.handle\<close> is \<open>null\<close>.
\<close>

definition send :: "PluginOperator \<Rightarrow> PluginMessage \<Rightarrow> PluginRunnable \<Rightarrow> error + PluginRunnable" where
  "send oper msg r =
     (case handle r of
        None \<Rightarrow> Inl TypeError_cannot_read_property
      | Some frames \<Rightarrow> Inr (r\<lparr>handle := Some (frames @ [stringify oper msg])\<rparr>))"

text \<open>\<^verbatim>\<open>private async read() { return new Promise((resolve) => { this.onread = resolve; }); }\<close>\<close>

definition read :: "PluginOperator \<times> caller \<Rightarrow> PluginRunnable \<Rightarrow> PluginRunnable" where
  "read k r = r\<lparr>onread := resolver k\<rparr>"

text \<open>
  One turn of the loop of \<open>waitOn(op)\<close> on the frame that \<open>read()\<close> delivered:
  \<open>None\<close> when the loop goes round (\<open>cur !== op\<close>), else the message it returns.
\<close>

definition waitOn :: "PluginOperator \<Rightarrow> PluginProto \<Rightarrow> PluginMessage option" where
  "waitOn oper data = (if op data \<noteq> oper then None else Some (message data))"

text \<open>
  \<open>sendAndWait(op, msg)\<close> up to its suspension: the frame is sent and the first
  \<open>read()\<close> of \<open>waitOn\<close> is pending.
\<close>

definition sendAndWait ::
  "PluginOperator \<Rightarrow> PluginMessage \<Rightarrow> caller \<Rightarrow> PluginRunnable \<Rightarrow> PluginRunnable \<times> report" where
  "sendAndWait oper msg k r =
     (case send oper msg r of
        Inl e \<Rightarrow> (r, Threw e)
      | Inr r' \<Rightarrow> (read (oper, k) r', Awaits_frame k))"

text \<open>
  \<open>sendAndWait\<close> after \<open>waitOn\<close> has returned \<open>resp\<close>:
  \<^verbatim>\<open>if (resp.event !== 'pong') { throw new TypeError(...); } return resp;\<close>
\<close>

definition sendAndWait_result :: "PluginMessage \<Rightarrow> error + PluginMessage" where
  "sendAndWait_result resp =
     (if event resp \<noteq> ''pong'' then Inl TypeError_event_is_not_pong else Inr resp)"

text \<open>
  The rest of each method once its \<open>await this.sendAndWait(\<dots>)\<close> has thrown or
  returned.
  \<^item> \<open>bootstrap\<close>: \<open>handshake\<close> returns \<open>true\<close>, then \<open>this.state = 'idle'\<close>.
  \<^item> \<open>start\<close>: \<open>this.state = 'idle'; const id = resp.params[0];
     return id ? new RunnableResponse(id) : null\<close>.
  \<^item> \<open>valueOf\<close>: throws unless \<open>msg.params\<close> has exactly one element, then returns
     \<open>JSON.parse(msg.params[0])\<close>.
\<close>

fun resume :: "caller \<Rightarrow> error + PluginMessage \<Rightarrow> PluginRunnable \<Rightarrow> PluginRunnable \<times> outcome" where
  "resume k (Inl e) r = (r, Rejected e)"
| "resume by_bootstrap (Inr resp) r = (r\<lparr>state := idle\<rparr>, Returned JUndefined)"
| "resume by_start (Inr resp) r =
     (case params resp of
        None \<Rightarrow> (r\<lparr>state := idle\<rparr>, Rejected TypeError_cannot_read_property)
      | Some ps \<Rightarrow>
          (r\<lparr>state := idle\<rparr>,
           Returned (if truthy (first_elem ps) then RunnableResponse (first_elem ps) else JNull)))"
| "resume by_valueOf (Inr msg) r =
     (case params msg of
        None \<Rightarrow> (r, Rejected TypeError_params_is_invalid)
      | Some ps \<Rightarrow>
          if length ps \<noteq> 1 then (r, Rejected TypeError_params_is_invalid)
          else (r, Returned_JSON_parse (first_elem ps)))"

text \<open>
  \<^verbatim>\<open>private handleMessage(msg: string) {
    const proto = PluginProto.parse(msg) as PluginProto;
    if (typeof this.onread === 'function') { this.onread(proto); } }\<close>
  It calls the resolver and nothing else. When the resolver is that of a pending
  \<open>read()\<close>, the promise is resolved with the frame and the resolver is used up; the
  \<open>waitOn\<close> that awaits the promise does not run yet. The result names the read that
  was resolved, if any, with its frame.
\<close>

type_synonym resolved_read = "(PluginOperator \<times> caller) \<times> PluginProto"

definition handleMessage :: "wire \<Rightarrow> PluginRunnable \<Rightarrow> PluginRunnable \<times> resolved_read option" where
  "handleMessage msg r =
     (let proto = parse msg in
      case onread r of
        resolver k \<Rightarrow> (r\<lparr>onread := resolver_used\<rparr>, Some (k, proto))
      | _ \<Rightarrow> (r, None))"

text \<open>
  The promise job of a resolved read: \<open>waitOn(op)\<close> resumes from
  \<open>await this.read()\<close> with the frame. It calls \<open>read()\<close> again, which stores a new
  resolver (\<open>cur !== op\<close>), or it returns through \<open>sendAndWait\<close> to its caller.
\<close>

definition waitOn_resumes :: "resolved_read \<Rightarrow> PluginRunnable \<Rightarrow> PluginRunnable \<times> report" where
  "waitOn_resumes j r =
     (case j of
        ((oper, k), data) \<Rightarrow>
          (case waitOn oper data of
             None \<Rightarrow> (read (oper, k) r, Skipped k)
           | Some resp \<Rightarrow>
               (let (r', out) = resume k (sendAndWait_result resp) r
                in (r', Settled k out))))"

text \<open>
  The frames that arrive together are handled one after the other before any promise
  job runs: \<open>handleMessage\<close> is called for each of them, in order.
\<close>

fun handleMessages :: "wire list \<Rightarrow> PluginRunnable \<Rightarrow> PluginRunnable \<times> resolved_read list" where
  "handleMessages [] r = (r, [])"
| "handleMessages (m # ms) r =
     (case handleMessage m r of
        (r1, j) \<Rightarrow>
          (case handleMessages ms r1 of
             (r2, js) \<Rightarrow> (r2, (case j of None \<Rightarrow> [] | Some x \<Rightarrow> [x]) @ js)))"

text \<open>
  One turn of the event loop in which the frames \<open>ms\<close> arrive: they are handled, then
  the promise job of the read they resolved runs. They resolve one read at most (lemma
  \<open>handleMessages_resolve_one\<close>), since the first that does uses the resolver up.
\<close>

definition on_tick :: "wire list \<Rightarrow> PluginRunnable \<Rightarrow> PluginRunnable \<times> report" where
  "on_tick ms r =
     (case handleMessages ms r of
        (r1, []) \<Rightarrow> (r1, No_call)
      | (r1, j # js) \<Rightarrow> waitOn_resumes j r1)"

subsection \<open>The public methods\<close>

text \<open>
  \<^verbatim>\<open>private async handshake() {
    await this.sendAndWait(PluginOperator.START, { event: 'handshake', params: [ this.id ] });
    return true; }\<close>
\<close>

definition handshake :: "PluginRunnable \<Rightarrow> PluginRunnable \<times> report" where
  "handshake r =
     sendAndWait START \<lparr>event = ''handshake'', params = Some [JStr (this_id r)]\<rparr> by_bootstrap r"

text \<open>
  \<open>bootstrap\<close> up to its suspension in \<open>handshake\<close>: the two directories, the fork
  (a new child with nothing sent to it, and its two listeners), the handshake frame.
  Its argument, the extra environment of the child, plays no part. The state is not
  looked at.
\<close>

definition bootstrap :: "PluginRunnable \<Rightarrow> PluginRunnable \<times> report" where
  "bootstrap r =
     (let compPath = workingDir r;
          fs1 = ensureDir compPath (files r);
          fs2 = ensureDir (compPath @ ''/node_modules'') fs1
      in handshake (r\<lparr>files := fs2, handle := Some [], children := Suc (children r)\<rparr>))"

text \<open>\<open>valueOf(resp)\<close> up to its suspension; it does not look at \<open>this.state\<close>.\<close>

definition valueOf :: "jsval \<Rightarrow> PluginRunnable \<Rightarrow> PluginRunnable \<times> report" where
  "valueOf resp r =
     sendAndWait READ \<lparr>event = ''deserialize response'', params = Some [resp]\<rparr> by_valueOf r"

text \<open>
  \<open>pkg.name\<close> as \<open>path.parse\<close> accepts it: reading it throws on \<open>null\<close> and
  \<open>undefined\<close>, and \<open>path.parse\<close> throws unless it is a string.
\<close>

fun pkg_name :: "jsval \<Rightarrow> error + string" where
  "pkg_name JUndefined = Inl TypeError_cannot_read_property"
| "pkg_name JNull = Inl TypeError_cannot_read_property"
| "pkg_name (JObj ps) =
     (case get_property ps ''name'' of JStr s \<Rightarrow> Inr s | _ \<Rightarrow> Inl TypeError_path_not_a_string)"
| "pkg_name (JNative n) = (if n = ''__proto__'' then Inl TypeError_path_not_a_string else Inr n)"
| "pkg_name v = Inl TypeError_path_not_a_string"

text \<open>
  \<open>start(pkg, ...args)\<close> up to its suspension (lines 127 to 154): the guard on
  \<open>this.state\<close>, \<open>this.state = 'busy'\<close>, the directories and the symlink, then
  \<open>sendAndWait(PluginOperator.WRITE, { event: 'start', params: [pkg, ...args] })\<close>.
  The guard and the assignment run at once, before the first await. The awaits on the
  directories and the symlink are taken as immediate, so the frame is sent in the same
  step; in the code a method called before they have completed sends its frame first.
\<close>

definition start :: "jsval \<Rightarrow> jsval list \<Rightarrow> PluginRunnable \<Rightarrow> PluginRunnable \<times> report" where
  "start pkg args r =
     (if state r \<noteq> idle then (r, Threw TypeError_busy_or_not_ready)
      else
        (let r1 = r\<lparr>state := busy\<rparr>;
             compPath = path_join (componentDir (rt_options r1)) (this_id r1)
         in case pkg_name pkg of
              Inl e \<Rightarrow> (r1, Threw e)
            | Inr name \<Rightarrow>
                (let fs1 = ensureDir compPath (files r1);
                     fs2 = ensureDir (compPath @ ''/node_modules'') fs1;
                     fs3 = (if dir_of name \<noteq> []
                            then ensureDir (compPath @ ''/node_modules/'' @ dir_of name) fs2
                            else fs2);
                     fs4 = ensureSymlink
                             (path_join (path_join (installDir (rt_options r1)) ''node_modules'') name)
                             (compPath @ ''/node_modules/'' @ name) fs3
                 in sendAndWait WRITE \<lparr>event = ''start'', params = Some (pkg # args)\<rparr>
                      by_start (r1\<lparr>files := fs4\<rparr>))))"

text \<open>
  \<^verbatim>\<open>async destroy() {
    this.send(PluginOperator.WRITE, { event: 'destroy' });
    return new Promise((resolve) => { this.ondestroyed = resolve; }); }\<close>
\<close>

definition destroy :: "PluginRunnable \<Rightarrow> PluginRunnable \<times> report" where
  "destroy r =
     (case send WRITE \<lparr>event = ''destroy'', params = None\<rparr> r of
        Inl e \<Rightarrow> (r, Threw e)
      | Inr r' \<Rightarrow> (r'\<lparr>ondestroyed := resolver ()\<rparr>, Awaits_exit))"

text \<open>
  \<^verbatim>\<open>private async afterDestroy() {
    await remove(path.join(this.rt.options.componentDir, this.id));
    if (typeof this.ondestroyed === 'function') { this.ondestroyed(); } }\<close>
  \<open>removed\<close> tells whether \<open>remove\<close> succeeded; when it fails the handler throws
  before it reaches \<open>ondestroyed\<close>.
\<close>

definition afterDestroy :: "bool \<Rightarrow> PluginRunnable \<Rightarrow> PluginRunnable \<times> report" where
  "afterDestroy removed r =
     (if \<not> removed then (r, Threw Remove_failed)
      else
        (let r1 = r\<lparr>files := remove (path_join (componentDir (rt_options r)) (this_id r)) (files r)\<rparr>
         in case ondestroyed r1 of
              resolver u \<Rightarrow> (r1\<lparr>ondestroyed := resolver_used\<rparr>, Destroy_resolved)
            | _ \<Rightarrow> (r1, No_call)))"

subsection \<open>Runs\<close>

text \<open>
  What can happen to a runnable: a method is called, frames arrive together from a
  child, or a child disconnects (with the success of the removal that follows). A frame
  that arrives alone is the case of one frame: the promise job of the read it resolves
  runs before the next frame arrives.
\<close>

datatype action =
    call_bootstrap
  | call_start jsval "jsval list"
  | call_valueOf jsval
  | call_destroy
  | on_frames "wire list"
  | on_disconnect bool

abbreviation on_frame :: "wire \<Rightarrow> action" where
  "on_frame msg \<equiv> on_frames [msg]"

fun step :: "action \<Rightarrow> PluginRunnable \<Rightarrow> PluginRunnable \<times> report" where
  "step call_bootstrap r = bootstrap r"
| "step (call_start pkg args) r = start pkg args r"
| "step (call_valueOf resp) r = valueOf resp r"
| "step call_destroy r = destroy r"
| "step (on_frames ms) r = on_tick ms r"
| "step (on_disconnect removed) r =
     (if children r = 0 then (r, No_call)
      else afterDestroy removed (r\<lparr>children := children r - 1\<rparr>))"

text \<open>A run returns the last state and the report of every step, in order.\<close>

fun run :: "action list \<Rightarrow> PluginRunnable \<Rightarrow> PluginRunnable \<times> report list" where
  "run [] r = (r, [])"
| "run (a # as) r =
     (let (r1, rep) = step a r; (r2, reps) = run as r1 in (r2, rep # reps))"

text \<open>The frames passed to the current child so far.\<close>

definition frames_sent :: "PluginRunnable \<Rightarrow> wire list" where
  "frames_sent r = (case handle r of None \<Rightarrow> [] | Some frames \<Rightarrow> frames)"

text \<open>
  The calls in flight after a run, counted on its reports for the methods \<open>ks\<close>:
  a call is in flight from its suspension in \<open>read()\<close> until it settles.
\<close>

fun in_flight :: "caller list \<Rightarrow> nat \<Rightarrow> report list \<Rightarrow> nat" where
  "in_flight ks n [] = n"
| "in_flight ks n (Awaits_frame k # reps) = in_flight ks (if k \<in> set ks then Suc n else n) reps"
| "in_flight ks n (Settled k out # reps) = in_flight ks (if k \<in> set ks then n - 1 else n) reps"
| "in_flight ks n (rep # reps) = in_flight ks n reps"

text \<open>
  All of them. Each call in flight is suspended in a \<open>read()\<close> of its own, so this is
  also the number of pending reads.
\<close>

definition calls_in_flight :: "report list \<Rightarrow> nat" where
  "calls_in_flight reps = in_flight [by_bootstrap, by_start, by_valueOf] 0 reps"

section \<open>The two processes together\<close>

text \<open>
  One action on the runnable, followed by what it causes: the frames it passed to the
  child are handled by the endpoint in order (a fork starts a new endpoint), the frames
  the endpoint sent back arrive in order, each alone (no handler of the endpoint sends
  more than one frame), and the exit of the endpoint fires the \<open>disconnect\<close>
  notification.
\<close>

definition exchange ::
  "platform \<Rightarrow> action \<Rightarrow> PluginRunnable \<times> client \<Rightarrow> (PluginRunnable \<times> client) \<times> report list" where
  "exchange P a rc =
     (let (r, c) = rc;
          (r1, rep) = step a r;
          forked = (a = call_bootstrap);
          c0 = (if forked then client_init else c);
          out = (if forked then frames_sent r1 else drop (length (frames_sent r)) (frames_sent r1));
          c1 = on_messages P out c0;
          (r2, reps) = run (map on_frame (drop (length (sent c0)) (sent c1))) r1;
          (r3, reps') = (if exit_code c0 = None \<and> exit_code c1 \<noteq> None
                         then run [on_disconnect True] r2 else (r2, []))
      in ((r3, c1), rep # reps @ reps'))"

fun exchanges ::
  "platform \<Rightarrow> action list \<Rightarrow> PluginRunnable \<times> client \<Rightarrow> (PluginRunnable \<times> client) \<times> report list" where
  "exchanges P [] rc = (rc, [])"
| "exchanges P (a # as) rc =
     (let (rc1, reps) = exchange P a rc; (rc2, reps') = exchanges P as rc1 in (rc2, reps @ reps'))"

section \<open>A concrete platform\<close>

text \<open>
  Three plugins are installed: \<open>plugin-a\<close> returns \<open>{ y: 2 }\<close>, \<open>plugin-b\<close> returns
  \<open>undefined\<close> and \<open>plugin-c\<close> throws. The ids have the 36 characters of a UUID.
\<close>

definition example_platform :: platform where
  "example_platform =
     \<lparr>uuid_v4 = (\<lambda>n. ''0b9a7a5e-4a0c-4c6e-9d2f-0000000000'' @ digits (10 + n)),
      require_plugin = (\<lambda>pkg.
        if pkg_name pkg = Inr ''plugin-a'' then Inr (\<lambda>as. Inr (JObj [(''y'', JNum 2)]))
        else if pkg_name pkg = Inr ''plugin-b'' then Inr (\<lambda>as. Inr JUndefined)
        else if pkg_name pkg = Inr ''plugin-c'' then Inr (\<lambda>as. Inl (Raised (JStr ''failed'')))
        else Inl (Raised (JStr ''Cannot find module'')))\<rparr>"

definition plugin_a :: jsval where
  "plugin_a = JObj [(''name'', JStr ''plugin-a''), (''version'', JStr ''1.0.0'')]"

definition plugin_b :: jsval where
  "plugin_b = JObj [(''name'', JStr ''plugin-b''), (''version'', JStr ''1.0.0'')]"

definition plugin_c :: jsval where
  "plugin_c = JObj [(''name'', JStr ''plugin-c''), (''version'', JStr ''1.0.0'')]"

definition example_options :: options where
  "example_options = \<lparr>installDir = ''/pipcook/plugins'', componentDir = ''/pipcook/components''\<rparr>"

definition example_runnable :: PluginRunnable where
  "example_runnable = new_PluginRunnable example_options ''7d0e'' []"

text \<open>The runnable and its endpoint after \<open>bootstrap()\<close> and the handshake.\<close>

definition example_idle :: "PluginRunnable \<times> client" where
  "example_idle = fst (exchange example_platform call_bootstrap (example_runnable, client_init))"

text \<open>The example after \<open>valueOf(null)\<close> has sent its request and waits.\<close>

definition example_waiting :: PluginRunnable where
  "example_waiting =
     (fst example_idle)\<lparr>handle := Some (frames_sent (fst example_idle) @
         [stringify READ \<lparr>event = ''deserialize response'', params = Some [JNull]\<rparr>]),
       onread := resolver (READ, by_valueOf)\<rparr>"


text \<open>The example after \<open>bootstrap()\<close>, the handshake and \<open>destroy()\<close>.\<close>

definition example_destroying :: PluginRunnable where
  "example_destroying =
     fst (run [call_bootstrap,
               on_frame (stringify START \<lparr>event = ''pong'', params = Some [JStr ''7d0e'']\<rparr>),
               call_destroy]
            (new_PluginRunnable example_options ''7d0e'' []))"

section \<open>Invariants of runs\<close>

text \<open>The handshake frame of a runnable with id \<open>i\<close>.\<close>

definition handshake_frame :: "string \<Rightarrow> wire" where
  "handshake_frame i = stringify START \<lparr>event = ''handshake'', params = Some [JStr i]\<rparr>"

text \<open>Whatever was passed to the current child, the handshake frame came first.\<close>

definition handshake_first :: "PluginRunnable \<Rightarrow> bool" where
  "handshake_first r =
     (case handle r of
        None \<Rightarrow> True
      | Some [] \<Rightarrow> False
      | Some (f # rest) \<Rightarrow> f = handshake_frame (this_id r))"

text \<open>The working directory is the one the constructor computed.\<close>

definition made :: "PluginRunnable \<Rightarrow> bool" where
  "made r = (workingDir r = path_join (componentDir (rt_options r)) (this_id r))"

text \<open>
  With \<open>n\<close> calls of \<open>start\<close> in flight: there is none, or there is one, the state
  is \<open>busy\<close> and no handshake is being awaited.
\<close>

definition awaited_by_bootstrap :: "PluginRunnable \<Rightarrow> bool" where
  "awaited_by_bootstrap r =
     (case onread r of resolver ok \<Rightarrow> snd ok = by_bootstrap | _ \<Rightarrow> False)"

definition one_start :: "PluginRunnable \<Rightarrow> nat \<Rightarrow> bool" where
  "one_start r n = (n = 0 \<or> (n = 1 \<and> state r = busy \<and> \<not> awaited_by_bootstrap r))"

section \<open>Basic facts\<close>

lemmas client_defs = on_message_def handlers_START_def handlers_WRITE_def handlers_READ_def
  handlers_COMPILE_def recv_def invoke_def get_property_def stringify_def client_init_def
  Object_prototype_def flag_def

lemmas runnable_defs = bootstrap_def handshake_def start_def valueOf_def destroy_def
  afterDestroy_def handleMessage_def waitOn_resumes_def on_tick_def sendAndWait_def send_def
  read_def waitOn_def dir_of_def
  sendAndWait_result_def frames_sent_def new_PluginRunnable_def RunnableResponse_def
  path_join_def ensureDir_def ensureSymlink_def remove_def inside_def

lemmas example_defs = example_platform_def example_options_def example_runnable_def
  plugin_a_def plugin_b_def plugin_c_def

lemma digits_10: "digits 10 = ''10''"
  by code_simp

lemma example_idle_eq:
  "example_idle =
    (\<lparr>this_id = ''7d0e'', rt_options = example_options,
      handle = Some [Wire START \<lparr>event = ''handshake'', params = Some [JStr ''7d0e'']\<rparr>],
      onread = resolver_used, ondestroyed = not_set,
      workingDir = ''/pipcook/components/7d0e'', state = idle, children = 1,
      files = [''/pipcook/components/7d0e'', ''/pipcook/components/7d0e/node_modules'']\<rparr>,
     \<lparr>clientId = Some ''7d0e'', previousResults = [], uuids = 0,
      sent = [Wire START \<lparr>event = ''pong'', params = Some [JStr ''7d0e'']\<rparr>],
      logged = [], uncaught = [], exit_code = None\<rparr>)"
  by (simp add: example_idle_def exchange_def client_defs runnable_defs example_defs Let_def)

lemma run_Cons:
  "run (a # as) r =
     (fst (run as (fst (step a r))), snd (step a r) # snd (run as (fst (step a r))))"
  by (simp add: split_def Let_def)

lemma in_flight_Cons: "in_flight ks n (rep # reps) = in_flight ks (in_flight ks n [rep]) reps"
  by (cases rep) simp_all

lemma onread_same: "onread r = v \<Longrightarrow> r\<lparr>onread := v\<rparr> = r"
  by (cases r) simp

lemma sendAndWait_eq:
  "sendAndWait oper msg k r =
     (case handle r of
        None \<Rightarrow> (r, Threw TypeError_cannot_read_property)
      | Some frames \<Rightarrow>
          (r\<lparr>handle := Some (frames @ [stringify oper msg]), onread := resolver (oper, k)\<rparr>,
           Awaits_frame k))"
  by (simp add: sendAndWait_def send_def read_def split: option.splits)

lemma sendAndWait_const:
  "this_id (fst (sendAndWait oper msg k r)) = this_id r \<and>
   rt_options (fst (sendAndWait oper msg k r)) = rt_options r \<and>
   workingDir (fst (sendAndWait oper msg k r)) = workingDir r"
  by (simp add: sendAndWait_eq split: option.splits)

lemma sendAndWait_report:
  "snd (sendAndWait oper msg k r) = Awaits_frame k \<or>
   (\<exists>e. snd (sendAndWait oper msg k r) = Threw e)"
  by (simp add: sendAndWait_eq split: option.splits)

lemma resume_const:
  "this_id (fst (resume k x r)) = this_id r \<and> rt_options (fst (resume k x r)) = rt_options r \<and>
   workingDir (fst (resume k x r)) = workingDir r \<and> handle (fst (resume k x r)) = handle r"
  by (cases k; cases x) (auto split: option.splits)

lemma resume_onread:
  "resume k x r = (r', out) \<Longrightarrow> onread r' = onread r"
  by (cases k; cases x) (auto split: option.splits if_splits)

lemma resume_valueOf_state:
  "resume by_valueOf x r = (r', out) \<Longrightarrow> state r' = state r"
  by (cases x) (auto split: option.splits if_splits)

lemma start_const:
  "this_id (fst (start pkg args r)) = this_id r \<and>
   rt_options (fst (start pkg args r)) = rt_options r \<and>
   workingDir (fst (start pkg args r)) = workingDir r"
  by (simp add: start_def Let_def sendAndWait_const split: sum.splits)

lemma start_report:
  "snd (start pkg args r) = Awaits_frame by_start \<or> (\<exists>e. snd (start pkg args r) = Threw e)"
  using sendAndWait_report by (simp add: start_def Let_def split: sum.splits)

text \<open>Frames that find no resolver of a pending read change nothing.\<close>

lemma handleMessages_dropped:
  "onread r = not_set \<or> onread r = resolver_used \<Longrightarrow> handleMessages ms r = (r, [])"
  by (induction ms) (auto simp: handleMessage_def)

text \<open>Of the frames that arrive together, only the first resolves the pending read.\<close>

lemma handleMessages_first:
  "onread r = resolver k \<Longrightarrow>
     handleMessages (m # ms) r = (r\<lparr>onread := resolver_used\<rparr>, [(k, parse m)])"
  by (simp add: handleMessage_def handleMessages_dropped)

lemma handleMessages_resolve_one: "length (snd (handleMessages ms r)) \<le> 1"
proof (cases ms)
  case Nil
  then show ?thesis by simp
next
  case (Cons m ms')
  then show ?thesis
    by (cases "onread r")
      (simp_all add: handleMessages_first handleMessages_dropped del: handleMessages.simps)
qed

lemma on_tick_Nil: "on_tick [] r = (r, No_call)"
  by (simp add: on_tick_def)

lemma on_tick_first: "on_tick (m # ms) r = on_tick [m] r"
  by (cases "onread r")
    (simp_all add: on_tick_def handleMessages_first handleMessages_dropped
      del: handleMessages.simps)

text \<open>A frame that arrives alone, with the promise job that follows it.\<close>

lemma on_tick_alone:
  "on_tick [msg] r =
     (case onread r of
        resolver (oper, k) \<Rightarrow>
          (case waitOn oper (parse msg) of
             None \<Rightarrow> (read (oper, k) (r\<lparr>onread := resolver_used\<rparr>), Skipped k)
           | Some resp \<Rightarrow>
               (let (r', out) = resume k (sendAndWait_result resp) (r\<lparr>onread := resolver_used\<rparr>)
                in (r', Settled k out)))
      | _ \<Rightarrow> (r, No_call))"
  by (cases "onread r")
    (auto simp: on_tick_def handleMessage_def waitOn_resumes_def split: option.splits prod.splits)

lemma on_tick_alone_const:
  "this_id (fst (on_tick [msg] r)) = this_id r \<and>
   rt_options (fst (on_tick [msg] r)) = rt_options r \<and>
   workingDir (fst (on_tick [msg] r)) = workingDir r \<and>
   handle (fst (on_tick [msg] r)) = handle r"
  by (simp add: on_tick_alone read_def split_def Let_def resume_const
      split: callback.splits option.splits)

lemma on_tick_const:
  "this_id (fst (on_tick ms r)) = this_id r \<and>
   rt_options (fst (on_tick ms r)) = rt_options r \<and>
   workingDir (fst (on_tick ms r)) = workingDir r \<and>
   handle (fst (on_tick ms r)) = handle r"
proof (cases ms)
  case Nil
  then show ?thesis by (simp add: on_tick_Nil)
next
  case (Cons m ms')
  then have "on_tick ms r = on_tick [m] r" by (simp only: on_tick_first[of m ms'])
  then show ?thesis by (simp only: on_tick_alone_const)
qed

lemma on_tick_alone_report: "snd (on_tick [msg] r) \<noteq> Destroy_resolved"
  by (simp add: on_tick_alone split_def Let_def split: callback.splits option.splits)

lemma on_tick_report: "snd (on_tick ms r) \<noteq> Destroy_resolved"
proof (cases ms)
  case Nil
  then show ?thesis by (simp add: on_tick_Nil)
next
  case (Cons m ms')
  then have "on_tick ms r = on_tick [m] r" by (simp only: on_tick_first[of m ms'])
  then show ?thesis by (simp only: on_tick_alone_report) simp
qed

lemma on_tick_skip:
  assumes "onread r = resolver (oper, k)" and "op (parse d) \<noteq> oper"
  shows "on_tick [d] r = (r, Skipped k)"
  using assms by (simp add: on_tick_alone waitOn_def read_def onread_same)

lemma afterDestroy_const:
  "this_id (fst (afterDestroy b r)) = this_id r \<and>
   rt_options (fst (afterDestroy b r)) = rt_options r \<and>
   workingDir (fst (afterDestroy b r)) = workingDir r \<and>
   handle (fst (afterDestroy b r)) = handle r"
  by (simp add: afterDestroy_def Let_def split: callback.splits)

lemma step_const:
  "this_id (fst (step a r)) = this_id r \<and> rt_options (fst (step a r)) = rt_options r \<and>
   workingDir (fst (step a r)) = workingDir r"
proof (cases a)
  case call_bootstrap
  then show ?thesis by (simp add: bootstrap_def handshake_def Let_def sendAndWait_const)
next
  case (call_start pkg args)
  then show ?thesis by (simp add: start_const)
next
  case (call_valueOf resp)
  then show ?thesis by (simp add: valueOf_def sendAndWait_const)
next
  case call_destroy
  then show ?thesis by (simp add: destroy_def send_def split: option.splits)
next
  case (on_frames ms)
  then show ?thesis by (simp add: on_tick_const)
next
  case (on_disconnect removed)
  then show ?thesis by (simp add: afterDestroy_const)
qed

section \<open>The endpoint's handlers\<close>

subsection \<open>READ\<close>

text \<open>
  C1. A \<open>READ\<close> request should be answered with a pong frame carrying the JSON-encoded
  value of the reference, or fail the call. The handler of the endpoint is empty:
  whatever the request carries and whatever the Result Table holds, handling a
  \<open>READ\<close> frame changes nothing and sends nothing, so the request is never answered.
\<close>

theorem READ_request_is_never_answered:
  "on_message P (stringify READ msg) c = c"
  by (simp add: on_message_def stringify_def handlers_READ_def split: option.splits)

subsection \<open>WRITE, when the plugin fails\<close>

text \<open>
  C4. For every \<open>WRITE\<close>/\<open>start\<close> request whose plugin invocation raises an error, the
  endpoint prints the error and does nothing else: no frame is sent and the Result Table
  is as before.
\<close>

theorem plugin_error_is_logged_without_reply:
  assumes "exit_code c = None"
    and "event msg = ''start''"
    and "params msg = Some (pkg # pluginArgs)"
    and "pkg \<noteq> JUndefined" and "pkg \<noteq> JNull"
    and "invoke P (previousResults c) pkg pluginArgs = Inl err"
  shows "on_message P (stringify WRITE msg) c = c\<lparr>logged := logged c @ [err]\<rparr> \<and>
         sent (on_message P (stringify WRITE msg) c) = sent c \<and>
         previousResults (on_message P (stringify WRITE msg) c) = previousResults c"
  using assms by (simp add: on_message_def stringify_def handlers_WRITE_def)

theorem plugin_error_is_logged_without_reply_witness:
  "exit_code (snd example_idle) = None \<and>
   invoke example_platform (previousResults (snd example_idle)) plugin_c [] =
     Inl (Raised (JStr ''failed'')) \<and>
   on_message example_platform
     (stringify WRITE \<lparr>event = ''start'', params = Some [plugin_c]\<rparr>) (snd example_idle) =
     (snd example_idle)\<lparr>logged := [Raised (JStr ''failed'')]\<rparr> \<and>
   sent (on_message example_platform
     (stringify WRITE \<lparr>event = ''start'', params = Some [plugin_c]\<rparr>) (snd example_idle)) =
     sent (snd example_idle)"
  using plugin_error_is_logged_without_reply
    [where c = "snd example_idle"
       and msg = "\<lparr>event = ''start'', params = Some [plugin_c]\<rparr>" and pkg = plugin_c
       and pluginArgs = "[]" and P = example_platform and err = "Raised (JStr ''failed'')"]
  by (simp add: example_idle_eq invoke_def example_defs get_property_def)

subsection \<open>Argument resolution\<close>

text \<open>What \<open>deserializeArg\<close> does with a reference it finds, and with other values.\<close>

lemma deserializeArg_found:
  "map_of tbl i = Some v \<Longrightarrow> truthy v \<Longrightarrow> deserializeArg tbl (RunnableResponse (JStr i)) = Inr v"
  by (simp add: RunnableResponse_def get_property_def flag_def)

lemma deserializeArg_other_object:
  "get_property ps ''__flag__'' \<noteq> JStr flag \<Longrightarrow> deserializeArg tbl (JObj ps) = Inr (JObj ps)"
  by simp

lemma deserializeArg_not_an_object:
  "deserializeArg tbl (JBool b) = Inr (JBool b)"
  "deserializeArg tbl (JNum n) = Inr (JNum n)"
  "deserializeArg tbl (JStr s) = Inr (JStr s)"
  "deserializeArg tbl (JArr xs) = Inr (JArr xs)"
  by simp_all

lemma deserializeArg_unknown_id:
  "map_of tbl i = None \<Longrightarrow> i \<notin> set Object_prototype \<Longrightarrow>
     deserializeArg tbl (RunnableResponse (JStr i)) = Inr (RunnableResponse (JStr i))"
  by (simp add: RunnableResponse_def get_property_def flag_def)

text \<open>An id that names a member of \<open>Object.prototype\<close> is found in the empty table.\<close>

lemma deserializeArg_inherited_member:
  "deserializeArg [] (RunnableResponse (JStr ''constructor'')) = Inr (JNative ''constructor'')"
  by (simp add: RunnableResponse_def get_property_def flag_def Object_prototype_def)

text \<open>
  C5. Every argument of a \<open>WRITE\<close>/\<open>start\<close> request should reach the plugin, as the
  stored value or as itself. At \<open>start(plugin_a, null)\<close> on the bootstrapped example
  the resolution of \<open>null\<close> throws: the endpoint prints the \<open>TypeError\<close>, does not
  call the plugin (which would have returned a value) and sends no reply, and the call
  of \<open>start\<close> stays suspended.
\<close>

theorem null_argument_stops_the_request:
  "exchange example_platform (call_start plugin_a [JNull]) example_idle =
     ((fst (start plugin_a [JNull] (fst example_idle)),
       (snd example_idle)\<lparr>logged := [TypeError_cannot_read_property]\<rparr>),
      [Awaits_frame by_start])"
  by (simp add: example_idle_eq exchange_def client_defs runnable_defs example_defs Let_def)

subsection \<open>WRITE and the handshake\<close>

text \<open>
  C7, as stated, fails: the handler of \<open>WRITE\<close> does not look at \<open>clientId\<close>. An
  endpoint that has seen no handshake loads and calls the plugin, stores the result and
  replies.
\<close>

theorem WRITE_is_processed_before_handshake:
  "clientId client_init = None \<and>
   on_message example_platform
     (stringify WRITE \<lparr>event = ''start'', params = Some [plugin_a]\<rparr>) client_init =
     client_init\<lparr>uuids := 1,
        previousResults := [(''0b9a7a5e-4a0c-4c6e-9d2f-000000000010'', JObj [(''y'', JNum 2)])],
        sent := [stringify WRITE
          \<lparr>event = ''pong'', params = Some [JStr ''0b9a7a5e-4a0c-4c6e-9d2f-000000000010'']\<rparr>]\<rparr>"
  by (simp add: client_defs example_defs digits_10 Let_def)

lemma handshake_first_fields:
  "handshake_first r \<Longrightarrow> handle r' = handle r \<Longrightarrow> this_id r' = this_id r \<Longrightarrow> handshake_first r'"
  unfolding handshake_first_def by (cases "handle r") (auto split: list.splits)

lemma handshake_first_send:
  assumes "handshake_first r" and "handle r = Some frames"
  shows "handshake_first (r\<lparr>handle := Some (frames @ [m]), onread := v\<rparr>)"
  using assms by (cases frames) (simp_all add: handshake_first_def)

lemma handshake_first_sendAndWait:
  "handshake_first r \<Longrightarrow> handshake_first (fst (sendAndWait oper msg k r))"
  by (cases "handle r") (simp_all add: sendAndWait_eq handshake_first_send)

lemma handshake_first_step: "handshake_first r \<Longrightarrow> handshake_first (fst (step a r))"
proof (cases a)
  case call_bootstrap
  then show ?thesis
    by (simp add: bootstrap_def handshake_def Let_def sendAndWait_eq handshake_first_def
        handshake_frame_def)
next
  case (call_start pkg args)
  assume h: "handshake_first r"
  show ?thesis
  proof (cases "state r = idle")
    case False
    with h call_start show ?thesis by (simp add: start_def)
  next
    case True
    show ?thesis
    proof (cases "pkg_name pkg")
      case (Inl e)
      with True call_start have "fst (step a r) = r\<lparr>state := busy\<rparr>"
        by (simp add: start_def Let_def)
      with h show ?thesis by (simp add: handshake_first_fields[of r])
    next
      case (Inr name)
      have "handshake_first (r\<lparr>state := busy, files := fs'\<rparr>)" for fs'
        using h by (simp add: handshake_first_fields[of r])
      with True call_start Inr show ?thesis
        by (simp add: start_def Let_def handshake_first_sendAndWait)
    qed
  qed
next
  case (call_valueOf resp)
  assume "handshake_first r"
  with call_valueOf show ?thesis by (simp add: valueOf_def handshake_first_sendAndWait)
next
  case call_destroy
  assume h: "handshake_first r"
  show ?thesis
  proof (cases "handle r")
    case None
    with h call_destroy show ?thesis by (simp add: destroy_def send_def)
  next
    case (Some frames)
    have "handshake_first (r\<lparr>handle := Some (frames @ [m]), onread := onread r\<rparr>)" for m
      using h Some by (rule handshake_first_send)
    then have "handshake_first (r\<lparr>handle := Some (frames @ [m]), ondestroyed := resolver ()\<rparr>)" for m
      by (rule handshake_first_fields) simp_all
    with Some call_destroy show ?thesis by (simp add: destroy_def send_def)
  qed
next
  case (on_frames ms)
  assume h: "handshake_first r"
  with on_frames show ?thesis
    by (simp add: handshake_first_fields[of r] on_tick_const)
next
  case (on_disconnect removed)
  assume h: "handshake_first r"
  have "handshake_first (r\<lparr>children := n\<rparr>)" for n
    using h by (simp add: handshake_first_fields[of r])
  with h on_disconnect show ?thesis
    by (simp add: handshake_first_fields[of "r\<lparr>children := children r - 1\<rparr>"] afterDestroy_const)
qed

lemma handshake_first_run: "handshake_first r \<Longrightarrow> handshake_first (fst (run acts r))"
proof (induction acts arbitrary: r)
  case Nil
  then show ?case by simp
next
  case (Cons a acts)
  then show ?case by (simp add: run_Cons handshake_first_step del: run.simps)
qed

lemma clientId_kept: "clientId c \<noteq> None \<Longrightarrow> clientId (on_message P m c) \<noteq> None"
proof (cases m)
  case (Wire oper msg)
  assume c: "clientId c \<noteq> None"
  show ?thesis
  proof (cases oper)
    case START
    with c Wire show ?thesis
      by (auto simp: on_message_def handlers_START_def recv_def split: option.splits jsval.splits)
  next
    case WRITE
    with c Wire show ?thesis
      by (auto simp: on_message_def handlers_WRITE_def recv_def Let_def
          split: option.splits sum.splits)
  next
    case READ
    with c Wire show ?thesis by (simp add: on_message_def handlers_READ_def split: option.splits)
  next
    case COMPILE
    with c Wire show ?thesis
      by (simp add: on_message_def handlers_COMPILE_def split: option.splits)
  qed
qed

lemma clientId_kept_all: "clientId c \<noteq> None \<Longrightarrow> clientId (on_messages P ms c) \<noteq> None"
proof (induction ms arbitrary: c)
  case Nil
  then show ?case by simp
next
  case (Cons m ms)
  have "clientId (on_message P m c) \<noteq> None" using Cons.prems by (rule clientId_kept)
  then have "clientId (on_messages P ms (on_message P m c)) \<noteq> None" by (rule Cons.IH)
  then show ?case by simp
qed

lemma handshake_sets_clientId: "clientId (on_message P (handshake_frame i) client_init) = Some i"
  by (simp add: on_message_def handshake_frame_def stringify_def handlers_START_def recv_def
      client_init_def)

lemma WRITE_ignores_clientId:
  "on_message P (stringify WRITE msg) (c\<lparr>clientId := x\<rparr>) =
     (on_message P (stringify WRITE msg) c)\<lparr>clientId := x\<rparr>"
  by (simp add: on_message_def stringify_def handlers_WRITE_def recv_def Let_def
      split: option.splits sum.splits)

text \<open>
  C7, amended. The endpoint handles a \<open>WRITE\<close> frame in the same way whatever
  \<open>clientId\<close> is, set or not. The order is kept by the runnable: whatever is done
  with a runnable from its construction on, the frames it has passed to its child begin
  with the handshake frame. So an endpoint that handles these frames in order has set
  \<open>clientId\<close> when it comes to any \<open>WRITE\<close> frame among them.
\<close>

theorem WRITE_frames_follow_the_handshake:
  assumes "frames_sent (fst (run acts (new_PluginRunnable rt uuid fs))) = pre @ f # post"
    and "op (parse f) = WRITE"
  shows "clientId (on_messages P pre client_init) \<noteq> None \<and>
         on_message P (stringify WRITE msg) (c\<lparr>clientId := x\<rparr>) =
           (on_message P (stringify WRITE msg) c)\<lparr>clientId := x\<rparr>"
proof (rule conjI[OF _ WRITE_ignores_clientId])
  let ?r = "fst (run acts (new_PluginRunnable rt uuid fs))"
  have "handshake_first (new_PluginRunnable rt uuid fs)"
    by (simp add: handshake_first_def new_PluginRunnable_def)
  then have "handshake_first ?r" by (rule handshake_first_run)
  then obtain rest where fr: "frames_sent ?r = handshake_frame (this_id ?r) # rest"
    using assms(1)
    by (cases "handle ?r") (auto simp: handshake_first_def frames_sent_def split: list.splits)
  have "pre \<noteq> []"
  proof
    assume "pre = []"
    with assms(1) fr have "f = handshake_frame (this_id ?r)" by simp
    with assms(2) show False by (simp add: handshake_frame_def stringify_def)
  qed
  then obtain pre' where "pre = handshake_frame (this_id ?r) # pre'"
    using assms(1) fr by (cases pre) auto
  then show "clientId (on_messages P pre client_init) \<noteq> None"
    by (simp add: clientId_kept_all handshake_sets_clientId)
qed

theorem WRITE_frames_follow_the_handshake_witness:
  "frames_sent (fst (run [call_bootstrap,
        on_frame (stringify START \<lparr>event = ''pong'', params = Some [JStr ''7d0e'']\<rparr>),
        call_start plugin_a []] example_runnable)) =
     [handshake_frame ''7d0e''] @
       stringify WRITE \<lparr>event = ''start'', params = Some [plugin_a]\<rparr> # [] \<and>
   op (parse (stringify WRITE \<lparr>event = ''start'', params = Some [plugin_a]\<rparr>)) = WRITE \<and>
   clientId (on_messages example_platform [handshake_frame ''7d0e''] client_init) \<noteq> None"
proof -
  have fr: "frames_sent (fst (run [call_bootstrap,
        on_frame (stringify START \<lparr>event = ''pong'', params = Some [JStr ''7d0e'']\<rparr>),
        call_start plugin_a []] (new_PluginRunnable example_options ''7d0e'' []))) =
     [handshake_frame ''7d0e''] @
       stringify WRITE \<lparr>event = ''start'', params = Some [plugin_a]\<rparr> # []"
    by (simp add: runnable_defs example_defs handshake_frame_def get_property_def stringify_def
        Let_def)
  have w: "op (parse (stringify WRITE \<lparr>event = ''start'', params = Some [plugin_a]\<rparr>)) = WRITE"
    by (simp add: stringify_def)
  show ?thesis
    using fr w WRITE_frames_follow_the_handshake [OF fr w, of example_platform]
    by (simp add: example_runnable_def)
qed

section \<open>Requests and their answers\<close>

subsection \<open>Matching the response\<close>





subsection \<open>A plugin that returns nothing\<close>

text \<open>
  C8. When the plugin invoked for a \<open>start\<close> request returns a falsy value
  (\<open>undefined\<close>, \<open>null\<close>, \<open>false\<close>, \<open>0\<close>, the empty string), the endpoint replies
  pong with no params, and the call of \<open>start()\<close> that sent the request resolves to
  \<open>null\<close>, with the state back to \<open>idle\<close>.
\<close>

theorem empty_result_resolves_to_null:
  assumes "state r = idle" and "handle r = Some frames" and "pkg_name pkg = Inr name"
    and "exit_code c = None"
    and "invoke P (previousResults c) pkg args = Inr v" and "\<not> truthy v"
  shows "exchange P (call_start pkg args) (r, c) =
           (((fst (start pkg args r))\<lparr>onread := resolver_used, state := idle\<rparr>,
             c\<lparr>sent := sent c @ [stringify WRITE \<lparr>event = ''pong'', params = Some []\<rparr>]\<rparr>),
            [Awaits_frame by_start, Settled by_start (Returned JNull)])"
proof -
  let ?f = "stringify WRITE \<lparr>event = ''start'', params = Some (pkg # args)\<rparr>"
  obtain fs' where st: "start pkg args r =
      (r\<lparr>state := busy, files := fs', handle := Some (frames @ [?f]),
         onread := resolver (WRITE, by_start)\<rparr>, Awaits_frame by_start)"
    using assms(1,2,3) by (simp add: start_def Let_def sendAndWait_eq)
  have pk: "pkg \<noteq> JUndefined" "pkg \<noteq> JNull" using assms(3) by auto
  have cl: "on_message P ?f c =
      c\<lparr>sent := sent c @ [stringify WRITE \<lparr>event = ''pong'', params = Some []\<rparr>]\<rparr>"
    using assms(4,5,6) pk by (simp add: on_message_def stringify_def handlers_WRITE_def recv_def)
  show ?thesis
    using st cl assms(2,4)
    by (simp add: exchange_def frames_sent_def on_tick_alone waitOn_def
        sendAndWait_result_def stringify_def)
qed

theorem empty_result_resolves_to_null_witness:
  "state (fst example_idle) = idle \<and>
   invoke example_platform (previousResults (snd example_idle)) plugin_b [] = Inr JUndefined \<and>
   snd (exchange example_platform (call_start plugin_b []) example_idle) =
     [Awaits_frame by_start, Settled by_start (Returned JNull)] \<and>
   sent (snd (fst (exchange example_platform (call_start plugin_b []) example_idle))) =
     sent (snd example_idle) @ [stringify WRITE \<lparr>event = ''pong'', params = Some []\<rparr>] \<and>
   state (fst (fst (exchange example_platform (call_start plugin_b []) example_idle))) = idle"
  using empty_result_resolves_to_null
    [where r = "fst example_idle" and frames = "frames_sent (fst example_idle)"
       and pkg = plugin_b and name = "''plugin-b''" and c = "snd example_idle"
       and P = example_platform and args = "[]" and v = JUndefined]
  by (simp add: example_idle_eq frames_sent_def invoke_def example_defs get_property_def)

subsection \<open>A plugin that returns a value\<close>

text \<open>
  The first half of the round trip holds in general: a truthy result is stored under a
  new id, and \<open>start()\<close> resolves to the reference with that id, provided the id is
  not the empty string.
\<close>

lemma value_result_resolves_to_reference:
  assumes "state r = idle" and "handle r = Some frames" and "pkg_name pkg = Inr name"
    and "exit_code c = None"
    and "invoke P (previousResults c) pkg args = Inr v" and "truthy v"
    and "uuid_v4 P (uuids c) \<noteq> []"
  shows "exchange P (call_start pkg args) (r, c) =
           (((fst (start pkg args r))\<lparr>onread := resolver_used, state := idle\<rparr>,
             c\<lparr>uuids := Suc (uuids c),
               previousResults := (uuid_v4 P (uuids c), v) # previousResults c,
               sent := sent c @ [stringify WRITE
                 \<lparr>event = ''pong'', params = Some [JStr (uuid_v4 P (uuids c))]\<rparr>]\<rparr>),
            [Awaits_frame by_start,
             Settled by_start (Returned (RunnableResponse (JStr (uuid_v4 P (uuids c)))))])"
proof -
  let ?f = "stringify WRITE \<lparr>event = ''start'', params = Some (pkg # args)\<rparr>"
  let ?i = "uuid_v4 P (uuids c)"
  obtain fs' where st: "start pkg args r =
      (r\<lparr>state := busy, files := fs', handle := Some (frames @ [?f]),
         onread := resolver (WRITE, by_start)\<rparr>, Awaits_frame by_start)"
    using assms(1,2,3) by (simp add: start_def Let_def sendAndWait_eq)
  have pk: "pkg \<noteq> JUndefined" "pkg \<noteq> JNull" using assms(3) by auto
  have cl: "on_message P ?f c =
      c\<lparr>uuids := Suc (uuids c), previousResults := (?i, v) # previousResults c,
        sent := sent c @ [stringify WRITE \<lparr>event = ''pong'', params = Some [JStr ?i]\<rparr>]\<rparr>"
    using assms(4,5,6) pk
    by (simp add: on_message_def stringify_def handlers_WRITE_def recv_def Let_def)
  show ?thesis
    using st cl assms(2,4,7)
    by (simp add: exchange_def frames_sent_def on_tick_alone waitOn_def
        sendAndWait_result_def stringify_def)
qed

text \<open>
  The second half fails in general: the endpoint does not answer the \<open>READ\<close> frame of
  \<open>valueOf\<close>, whatever the reference is, and the call stays suspended.
\<close>

lemma valueOf_is_never_answered:
  assumes "handle r = Some frames"
  shows "exchange P (call_valueOf ref) (r, c) = ((fst (valueOf ref r), c), [Awaits_frame by_valueOf])"
proof -
  let ?f = "stringify READ \<lparr>event = ''deserialize response'', params = Some [ref]\<rparr>"
  have v: "valueOf ref r =
      (r\<lparr>handle := Some (frames @ [?f]), onread := resolver (READ, by_valueOf)\<rparr>,
       Awaits_frame by_valueOf)"
    using assms by (simp add: valueOf_def sendAndWait_eq)
  have "on_message P ?f c = c"
    by (simp add: on_message_def stringify_def handlers_READ_def split: option.splits)
  then show ?thesis
    using v assms by (cases "exit_code c") (simp_all add: exchange_def frames_sent_def)
qed

text \<open>
  C2. \<open>start(plugin_a, { x: 1 })\<close> on the bootstrapped example, where the plugin returns
  \<open>{ y: 2 }\<close>, resolves to a reference, and the value is in the Result Table under its
  id. \<open>valueOf\<close> of that reference should then yield \<open>{ y: 2 }\<close>. It sends its
  \<open>READ\<close> frame and stays suspended: the endpoint sends nothing back (its last frame is
  the pong of \<open>start\<close>), so the call never settles.
\<close>

theorem valueOf_of_a_result_never_settles:
  "exchanges example_platform
     [call_start plugin_a [JObj [(''x'', JNum 1)]],
      call_valueOf (RunnableResponse (JStr ''0b9a7a5e-4a0c-4c6e-9d2f-000000000010''))]
     example_idle =
   ((fst (valueOf (RunnableResponse (JStr ''0b9a7a5e-4a0c-4c6e-9d2f-000000000010''))
        (fst (fst (exchange example_platform
           (call_start plugin_a [JObj [(''x'', JNum 1)]]) example_idle)))),
     (snd example_idle)\<lparr>uuids := 1,
        previousResults := [(''0b9a7a5e-4a0c-4c6e-9d2f-000000000010'', JObj [(''y'', JNum 2)])],
        sent := sent (snd example_idle) @ [stringify WRITE
          \<lparr>event = ''pong'', params = Some [JStr ''0b9a7a5e-4a0c-4c6e-9d2f-000000000010'']\<rparr>]\<rparr>),
    [Awaits_frame by_start,
     Settled by_start
       (Returned (RunnableResponse (JStr ''0b9a7a5e-4a0c-4c6e-9d2f-000000000010''))),
     Awaits_frame by_valueOf])"
  by (simp add: example_idle_eq exchange_def client_defs runnable_defs example_defs Let_def
      digits_10)

section \<open>The state gate of \<open>start\<close>\<close>

text \<open>
  C3, as stated, fails in its last sentence: only \<open>start\<close> looks at the state. On the
  idle example, \<open>start(plugin_a)\<close> followed by \<open>valueOf\<close> before any frame has
  arrived sends both requests, and two calls are in flight.
\<close>

theorem two_requests_in_flight:
  "calls_in_flight
     (snd (run [call_start plugin_a [],
                call_valueOf (RunnableResponse (JStr ''0b9a7a5e-4a0c-4c6e-9d2f-000000000010''))]
            (fst example_idle))) = 2 \<and>
   length (frames_sent (fst (run [call_start plugin_a [],
                call_valueOf (RunnableResponse (JStr ''0b9a7a5e-4a0c-4c6e-9d2f-000000000010''))]
            (fst example_idle)))) = length (frames_sent (fst example_idle)) + 2"
  by (simp add: calls_in_flight_def example_idle_eq runnable_defs example_defs Let_def
      get_property_def)

lemma one_start_frame:
  assumes "one_start r n"
  shows "one_start (fst (on_tick [msg] r)) (in_flight [by_start] n [snd (on_tick [msg] r)])"
proof (cases "onread r")
  case not_set
  with assms show ?thesis by (simp add: on_tick_alone)
next
  case resolver_used
  with assms show ?thesis by (simp add: on_tick_alone)
next
  case (resolver ok)
  obtain oper k where ok: "ok = (oper, k)" by (cases ok)
  show ?thesis
  proof (cases "waitOn oper (parse msg)")
    case None
    then have "op (parse msg) \<noteq> oper" by (simp add: waitOn_def split: if_splits)
    then have "on_tick [msg] r = (r, Skipped k)"
      using resolver ok by (simp add: on_tick_skip)
    with assms show ?thesis by simp
  next
    case (Some resp)
    obtain r' out where res:
      "resume k (sendAndWait_result resp) (r\<lparr>onread := resolver_used\<rparr>) = (r', out)"
      by (cases "resume k (sendAndWait_result resp) (r\<lparr>onread := resolver_used\<rparr>)")
    have hm: "on_tick [msg] r = (r', Settled k out)"
      using resolver ok Some res by (simp add: on_tick_alone)
    have used: "onread r' = resolver_used" using resume_onread[OF res] by simp
    show ?thesis
    proof (cases k)
      case by_bootstrap
      with assms resolver ok have "n = 0"
        by (auto simp: one_start_def awaited_by_bootstrap_def)
      with hm by_bootstrap show ?thesis by (simp add: one_start_def)
    next
      case by_start
      from assms have "n = 0 \<or> n = 1" by (auto simp: one_start_def)
      with hm by_start show ?thesis by (auto simp: one_start_def)
    next
      case by_valueOf
      have "state r' = state r" using resume_valueOf_state res by_valueOf by fastforce
      with assms hm by_valueOf used show ?thesis
        by (auto simp: one_start_def awaited_by_bootstrap_def)
    qed
  qed
qed

lemma one_start_step:
  assumes "a \<noteq> call_bootstrap" and "one_start r n"
  shows "one_start (fst (step a r)) (in_flight [by_start] n [snd (step a r)])"
proof (cases a)
  case call_bootstrap
  with assms show ?thesis by simp
next
  case (call_start pkg args)
  show ?thesis
  proof (cases "state r = idle")
    case False
    with assms call_start show ?thesis by (simp add: start_def)
  next
    case True
    with assms have n0: "n = 0" by (auto simp: one_start_def)
    show ?thesis
      using True n0 call_start
      by (auto simp: start_def one_start_def awaited_by_bootstrap_def Let_def sendAndWait_eq
          split: sum.splits option.splits)
  qed
next
  case (call_valueOf resp)
  with assms show ?thesis
    by (auto simp: valueOf_def one_start_def awaited_by_bootstrap_def sendAndWait_eq
        split: option.splits)
next
  case call_destroy
  with assms show ?thesis
    by (auto simp: destroy_def one_start_def awaited_by_bootstrap_def send_def
        split: option.splits)
next
  case (on_frames ms)
  show ?thesis
  proof (cases ms)
    case Nil
    with assms on_frames show ?thesis by (simp add: on_tick_Nil)
  next
    case (Cons msg rest)
    with on_frames have "step a r = on_tick [msg] r" by (simp add: on_tick_first[of msg rest])
    then show ?thesis using one_start_frame[OF assms(2), of msg] by simp
  qed
next
  case (on_disconnect removed)
  with assms show ?thesis
    by (auto simp: afterDestroy_def one_start_def awaited_by_bootstrap_def Let_def
        split: callback.splits)
qed

lemma one_start_run:
  "call_bootstrap \<notin> set acts \<Longrightarrow> one_start r n \<Longrightarrow>
     in_flight [by_start] n (snd (run acts r)) \<le> 1"
proof (induction acts arbitrary: r n)
  case Nil
  then show ?case by (auto simp: one_start_def)
next
  case (Cons a acts)
  have "one_start (fst (step a r)) (in_flight [by_start] n [snd (step a r)])"
    using Cons.prems by (intro one_start_step) auto
  then have "in_flight [by_start] (in_flight [by_start] n [snd (step a r)])
      (snd (run acts (fst (step a r)))) \<le> 1"
    using Cons.prems by (intro Cons.IH) auto
  then show ?case
    by (simp only: run_Cons snd_conv) (subst in_flight_Cons, assumption)
qed

text \<open>
  C3, amended. When the state is not \<open>idle\<close> (it is \<open>busy\<close> or \<open>init\<close>), \<open>start()\<close>
  throws the busy error at once and leaves the runnable as it was: nothing is sent and
  the state is unchanged. Hence, in every run in which \<open>bootstrap()\<close> is not called
  again, at most one call of \<open>start()\<close> is in flight at any time. \<open>valueOf()\<close> and
  \<open>destroy()\<close> send their frames to the child whatever the state is.
\<close>

theorem start_is_gated_by_idle:
  "(state r \<noteq> idle \<longrightarrow>
      start pkg args r = (r, Threw TypeError_busy_or_not_ready) \<and>
      frames_sent (fst (start pkg args r)) = frames_sent r \<and>
      state (fst (start pkg args r)) = state r) \<and>
   (call_bootstrap \<notin> set acts \<longrightarrow> in_flight [by_start] 0 (snd (run acts r0)) \<le> 1) \<and>
   (handle r = Some frames \<longrightarrow>
      frames_sent (fst (valueOf resp r)) =
        frames @ [stringify READ \<lparr>event = ''deserialize response'', params = Some [resp]\<rparr>] \<and>
      frames_sent (fst (destroy r)) =
        frames @ [stringify WRITE \<lparr>event = ''destroy'', params = None\<rparr>])"
proof (intro conjI impI)
  assume "handle r = Some frames"
  then show "frames_sent (fst (valueOf resp r)) =
        frames @ [stringify READ \<lparr>event = ''deserialize response'', params = Some [resp]\<rparr>]"
    and "frames_sent (fst (destroy r)) =
        frames @ [stringify WRITE \<lparr>event = ''destroy'', params = None\<rparr>]"
    by (simp_all add: valueOf_def sendAndWait_eq destroy_def send_def frames_sent_def)
next
  assume "state r \<noteq> idle"
  then show "start pkg args r = (r, Threw TypeError_busy_or_not_ready)"
    and "frames_sent (fst (start pkg args r)) = frames_sent r"
    and "state (fst (start pkg args r)) = state r"
    by (simp_all add: start_def)
next
  assume "call_bootstrap \<notin> set acts"
  then show "in_flight [by_start] 0 (snd (run acts r0)) \<le> 1"
    by (rule one_start_run) (simp add: one_start_def)
qed

theorem start_is_gated_by_idle_witness:
  "state example_runnable = init \<and>
   start plugin_a [] example_runnable = (example_runnable, Threw TypeError_busy_or_not_ready) \<and>
   state (fst (start plugin_a [] (fst example_idle))) = busy \<and>
   start plugin_b [] (fst (start plugin_a [] (fst example_idle))) =
     (fst (start plugin_a [] (fst example_idle)), Threw TypeError_busy_or_not_ready) \<and>
   call_bootstrap \<notin> set [call_start plugin_a [], call_start plugin_b []] \<and>
   in_flight [by_start] 0
     (snd (run [call_start plugin_a [], call_start plugin_b []] (fst example_idle))) \<le> 1 \<and>
   handle (fst (start plugin_a [] (fst example_idle))) =
     Some [handshake_frame ''7d0e'', stringify WRITE \<lparr>event = ''start'', params = Some [plugin_a]\<rparr>] \<and>
   frames_sent (fst (valueOf JNull (fst (start plugin_a [] (fst example_idle))))) =
     [handshake_frame ''7d0e'', stringify WRITE \<lparr>event = ''start'', params = Some [plugin_a]\<rparr>,
      stringify READ \<lparr>event = ''deserialize response'', params = Some [JNull]\<rparr>]"
proof -
  have h: "handle (fst (start plugin_a [] (fst example_idle))) =
     Some [handshake_frame ''7d0e'', stringify WRITE \<lparr>event = ''start'', params = Some [plugin_a]\<rparr>]"
    by (simp add: example_idle_eq runnable_defs example_defs Let_def get_property_def
        handshake_frame_def stringify_def)
  have i: "state example_runnable = init"
    by (simp add: example_runnable_def new_PluginRunnable_def)
  have b: "state (fst (start plugin_a [] (fst example_idle))) = busy"
    by (simp add: example_idle_eq runnable_defs example_defs Let_def get_property_def)
  show ?thesis
    using i b h
      start_is_gated_by_idle [where r = example_runnable and pkg = plugin_a and args = "[]"
        and acts = "[call_start plugin_a [], call_start plugin_b []]" and ?r0.0 = "fst example_idle"]
      start_is_gated_by_idle [where r = "fst (start plugin_a [] (fst example_idle))"
        and pkg = plugin_b and args = "[]" and acts = "[]" and ?r0.0 = "fst example_idle"
        and resp = JNull
        and frames = "[handshake_frame ''7d0e'',
            stringify WRITE \<lparr>event = ''start'', params = Some [plugin_a]\<rparr>]"]
    by simp
qed

section \<open>Frames and pending reads\<close>

text \<open>
  C10, as stated, fails in its last words: more than one \<open>read()\<close> can be pending.
  \<open>valueOf\<close> called twice on the idle example suspends two calls, each in its own
  \<open>read()\<close>; the field \<open>onread\<close> holds the resolver of the second only.
\<close>

theorem two_reads_pending:
  "calls_in_flight
     (snd (run [call_valueOf (RunnableResponse (JStr ''0b9a7a5e-4a0c-4c6e-9d2f-000000000010'')),
                call_valueOf (RunnableResponse (JStr ''0b9a7a5e-4a0c-4c6e-9d2f-000000000011''))]
            (fst example_idle))) = 2 \<and>
   onread (fst (run [call_valueOf (RunnableResponse (JStr ''0b9a7a5e-4a0c-4c6e-9d2f-000000000010'')),
                call_valueOf (RunnableResponse (JStr ''0b9a7a5e-4a0c-4c6e-9d2f-000000000011''))]
            (fst example_idle))) = resolver (READ, by_valueOf)"
  by (simp add: calls_in_flight_def example_idle_eq runnable_defs example_defs Let_def)

text \<open>
  C10, amended. A frame handled while \<open>onread\<close> holds no resolver of a pending
  \<open>read()\<close> (the field is unset, or its promise is already resolved) is discarded: the
  runnable is unchanged, no read is resolved and no call is concerned. Otherwise the
  frame goes to one \<open>read()\<close> only, the one whose resolver the field holds:
  \<open>handleMessage\<close> resolves that read and uses the resolver up, and when the frame has
  arrived alone the caller of that read skips it or settles. A later \<open>read()\<close>
  replaces the resolver of an earlier one, which then receives nothing.
\<close>

theorem frame_goes_to_the_registered_read_only:
  "(onread r = not_set \<or> onread r = resolver_used \<longrightarrow>
      handleMessage msg r = (r, None) \<and> step (on_frame msg) r = (r, No_call)) \<and>
   (onread r = resolver (oper, k) \<longrightarrow>
      handleMessage msg r = (r\<lparr>onread := resolver_used\<rparr>, Some ((oper, k), parse msg)) \<and>
      (step (on_frame msg) r = (r, Skipped k) \<or>
       (\<exists>r' out. step (on_frame msg) r = (r', Settled k out) \<and> onread r' = resolver_used))) \<and>
   onread (read later (read earlier r)) = resolver later"
proof (intro conjI impI)
  show "onread (read later (read earlier r)) = resolver later"
    by (simp add: read_def)
next
  assume "onread r = not_set \<or> onread r = resolver_used"
  then show "handleMessage msg r = (r, None)" and "step (on_frame msg) r = (r, No_call)"
    by (auto simp: handleMessage_def on_tick_alone)
next
  assume o: "onread r = resolver (oper, k)"
  then show "handleMessage msg r = (r\<lparr>onread := resolver_used\<rparr>, Some ((oper, k), parse msg))"
    by (simp add: handleMessage_def)
  show "step (on_frame msg) r = (r, Skipped k) \<or>
      (\<exists>r' out. step (on_frame msg) r = (r', Settled k out) \<and> onread r' = resolver_used)"
  proof (cases "op (parse msg) = oper")
    case False
    with o show ?thesis by (simp add: on_tick_skip)
  next
    case True
    obtain r' out where res:
      "resume k (sendAndWait_result (message (parse msg))) (r\<lparr>onread := resolver_used\<rparr>) = (r', out)"
      by (cases "resume k (sendAndWait_result (message (parse msg))) (r\<lparr>onread := resolver_used\<rparr>)")
    have "onread r' = resolver_used" using resume_onread[OF res] by simp
    moreover have "step (on_frame msg) r = (r', Settled k out)"
      using o True res by (simp add: on_tick_alone waitOn_def)
    ultimately show ?thesis by simp
  qed
qed

theorem frame_goes_to_the_registered_read_only_witness:
  "onread example_runnable = not_set \<and>
   handleMessage (stringify START \<lparr>event = ''pong'', params = Some [JStr ''7d0e'']\<rparr>)
     example_runnable = (example_runnable, None) \<and>
   step (on_frame (stringify START \<lparr>event = ''pong'', params = Some [JStr ''7d0e'']\<rparr>))
     example_runnable = (example_runnable, No_call) \<and>
   onread example_waiting = resolver (READ, by_valueOf) \<and>
   handleMessage (stringify START \<lparr>event = ''pong'', params = Some [JStr ''7d0e'']\<rparr>)
     example_waiting =
     (example_waiting\<lparr>onread := resolver_used\<rparr>,
      Some ((READ, by_valueOf),
            parse (stringify START \<lparr>event = ''pong'', params = Some [JStr ''7d0e'']\<rparr>))) \<and>
   step (on_frame (stringify START \<lparr>event = ''pong'', params = Some [JStr ''7d0e'']\<rparr>))
     example_waiting = (example_waiting, Skipped by_valueOf)"
proof -
  have n: "onread example_runnable = not_set"
    by (simp add: example_runnable_def new_PluginRunnable_def)
  have w: "onread example_waiting = resolver (READ, by_valueOf)"
    by (simp add: example_waiting_def)
  have s: "step (on_frame (stringify START \<lparr>event = ''pong'', params = Some [JStr ''7d0e'']\<rparr>))
     example_waiting = (example_waiting, Skipped by_valueOf)"
    using w by (simp add: on_tick_skip stringify_def)
  show ?thesis
    using n w s
      frame_goes_to_the_registered_read_only [where r = example_runnable
        and msg = "stringify START \<lparr>event = ''pong'', params = Some [JStr ''7d0e'']\<rparr>"
        and oper = READ and k = by_valueOf]
      frame_goes_to_the_registered_read_only [where r = example_waiting
        and msg = "stringify START \<lparr>event = ''pong'', params = Some [JStr ''7d0e'']\<rparr>"
        and oper = READ and k = by_valueOf]
    by simp
qed

section \<open>Destroying a runnable\<close>

lemma made_new: "made (new_PluginRunnable rt uuid fs)"
  by (simp add: made_def new_PluginRunnable_def)

lemma made_run: "made r \<Longrightarrow> made (fst (run acts r))"
proof (induction acts arbitrary: r)
  case Nil
  then show ?case by simp
next
  case (Cons a acts)
  have "made (fst (step a r))" using Cons.prems step_const[of a r] by (simp add: made_def)
  then show ?case using Cons.IH by (simp add: run_Cons del: run.simps)
qed

lemma remove_nothing_inside: "\<forall>p \<in> set (remove d fs). \<not> inside d p"
  by (simp add: remove_def)

lemma destroy_eq:
  "handle r = Some frames \<Longrightarrow>
     destroy r =
       (r\<lparr>handle := Some (frames @ [stringify WRITE \<lparr>event = ''destroy'', params = None\<rparr>]),
          ondestroyed := resolver ()\<rparr>, Awaits_exit)"
  by (simp add: destroy_def send_def)

lemma Destroy_resolved_only_on_disconnect:
  assumes "step a r = (r', Destroy_resolved)"
  shows "\<exists>removed. a = on_disconnect removed"
proof (cases a)
  case call_bootstrap
  with assms show ?thesis by (simp add: bootstrap_def handshake_def Let_def sendAndWait_eq)
next
  case (call_start pkg args)
  with assms have "snd (start pkg args r) = Destroy_resolved" by simp
  then show ?thesis using start_report[of pkg args r] by simp
next
  case (call_valueOf resp)
  with assms show ?thesis by (simp add: valueOf_def sendAndWait_eq split: option.splits)
next
  case call_destroy
  with assms show ?thesis by (auto simp: destroy_def send_def split: option.splits)
next
  case (on_frames ms)
  with assms have "snd (on_tick ms r) = Destroy_resolved" by simp
  then show ?thesis by (simp add: on_tick_report)
next
  case (on_disconnect removed)
  then show ?thesis by simp
qed

lemma Destroy_resolved_files:
  assumes "step (on_disconnect removed) r = (r', Destroy_resolved)"
  shows "files r' = remove (path_join (componentDir (rt_options r)) (this_id r)) (files r)"
  using assms by (auto simp: afterDestroy_def Let_def split: if_splits callback.splits)

lemma Destroy_resolved_removed:
  assumes "made r" and "step a r = (r', Destroy_resolved)"
  shows "\<forall>p \<in> set (files r'). \<not> inside (workingDir r') p"
proof -
  obtain removed where a: "a = on_disconnect removed"
    using Destroy_resolved_only_on_disconnect[OF assms(2)] ..
  have "workingDir r' = workingDir r" using step_const[of a r] assms(2) by simp
  moreover have "files r' = remove (workingDir r) (files r)"
    using Destroy_resolved_files[of removed r r'] assms a by (simp only: made_def)
  ultimately show ?thesis
    using remove_nothing_inside[of "workingDir r" "files r"] by simp
qed

lemma disconnect_removes:
  assumes "made r" and "0 < children r"
  shows "files (fst (step (on_disconnect True) r)) = remove (workingDir r) (files r)"
  using assms by (simp add: afterDestroy_def made_def Let_def split: callback.splits)

text \<open>
  C9. In every state a runnable can reach from its construction: \<open>destroy()\<close> passes
  the \<open>WRITE\<close>/\<open>destroy\<close> frame to the child and is suspended on \<open>ondestroyed\<close>
  without registering any \<open>read()\<close>; the only step that resolves its promise is the
  \<open>disconnect\<close> notification of a child; that notification, when the removal succeeds,
  removes the working directory with everything inside it; so at the moment the promise
  of \<open>destroy()\<close> resolves, neither the working directory nor anything inside it exists.
\<close>

theorem destroy_resolves_on_exit_with_workingDir_removed:
  assumes "r = fst (run acts (new_PluginRunnable rt uuid fs))"
  shows "(handle r = Some frames \<longrightarrow>
            destroy r =
              (r\<lparr>handle := Some (frames @ [stringify WRITE \<lparr>event = ''destroy'', params = None\<rparr>]),
                 ondestroyed := resolver ()\<rparr>, Awaits_exit)) \<and>
         (step a r = (r', Destroy_resolved) \<longrightarrow>
            (\<exists>removed. a = on_disconnect removed) \<and>
            (\<forall>p \<in> set (files r'). \<not> inside (workingDir r') p)) \<and>
         (0 < children r \<longrightarrow>
            files (fst (step (on_disconnect True) r)) = remove (workingDir r) (files r))"
proof -
  have m: "made r" unfolding assms by (rule made_run[OF made_new])
  show ?thesis
    using destroy_eq[of r frames] Destroy_resolved_only_on_disconnect[of a r r']
      Destroy_resolved_removed[OF m, of a r'] disconnect_removes[OF m]
    by blast
qed

lemma example_destroying_eq:
  "example_destroying =
     (fst example_idle)\<lparr>handle := Some [handshake_frame ''7d0e'',
          stringify WRITE \<lparr>event = ''destroy'', params = None\<rparr>],
        ondestroyed := resolver ()\<rparr>"
  by (simp add: example_destroying_def example_idle_eq runnable_defs handshake_frame_def
      stringify_def example_options_def Let_def)

theorem destroy_resolves_on_exit_with_workingDir_removed_witness:
  "handle example_destroying =
     Some [handshake_frame ''7d0e'', stringify WRITE \<lparr>event = ''destroy'', params = None\<rparr>] \<and>
   snd (destroy example_destroying) = Awaits_exit \<and>
   onread (fst (destroy example_destroying)) = onread example_destroying \<and>
   step (on_disconnect True) example_destroying =
     (example_destroying\<lparr>children := 0, files := [], ondestroyed := resolver_used\<rparr>,
      Destroy_resolved) \<and>
   0 < children example_destroying \<and>
   files (fst (step (on_disconnect True) example_destroying)) = []"
proof -
  have h: "handle example_destroying =
     Some [handshake_frame ''7d0e'', stringify WRITE \<lparr>event = ''destroy'', params = None\<rparr>]"
    by (simp add: example_destroying_eq)
  have s: "step (on_disconnect True) example_destroying =
     (example_destroying\<lparr>children := 0, files := [], ondestroyed := resolver_used\<rparr>,
      Destroy_resolved)"
    by (simp add: example_destroying_eq example_idle_eq afterDestroy_def remove_def inside_def
        path_join_def example_options_def Let_def)
  have c: "0 < children example_destroying"
    by (simp add: example_destroying_eq example_idle_eq)
  show ?thesis
    using h s c
      destroy_resolves_on_exit_with_workingDir_removed
        [OF example_destroying_def,
         where frames = "[handshake_frame ''7d0e'',
             stringify WRITE \<lparr>event = ''destroy'', params = None\<rparr>]"
           and a = "on_disconnect True"
           and r' = "example_destroying\<lparr>children := 0, files := [], ondestroyed := resolver_used\<rparr>"]
    by simp
qed

end
